theory Spec2Isabelle
  imports Main
begin

section \<open>Entity layer: the models module\<close>

text \<open>
  Modelled from the spec: the enumerations \<^verbatim>\<open>Priority\<close> and \<^verbatim>\<open>Status\<close> of the
  module \<^verbatim>\<open>models\<close>, which \<^verbatim>\<open>main.py\<close> imports and which is absent. Both are
  closed sets of members that carry their own names as string values
  (\<^verbatim>\<open>Priority.HIGH.value == "HIGH"\<close>).
\<close>

datatype Priority = HIGH | MID | LOW

datatype Status = PENDING | COMPLETED

text \<open>Modelled from the spec: the member's literal string tag, \<^verbatim>\<open>Priority.value\<close>.\<close>

fun Priority_value :: "Priority \<Rightarrow> string" where
  "Priority_value HIGH = ''HIGH''"
| "Priority_value MID = ''MID''"
| "Priority_value LOW = ''LOW''"

text \<open>Modelled from the spec: the member's literal string tag, \<^verbatim>\<open>Status.value\<close>.\<close>

fun Status_value :: "Status \<Rightarrow> string" where
  "Status_value PENDING = ''PENDING''"
| "Status_value COMPLETED = ''COMPLETED''"

text \<open>
  Modelled from the spec: the enumeration lookup \<^verbatim>\<open>Priority(s)\<close>, a strict
  parse-or-fail; \<open>None\<close> stands for the \<^verbatim>\<open>ValueError\<close> raised on a string that is not
  a member's tag.
\<close>

definition Priority_of :: "string \<Rightarrow> Priority option" where
  "Priority_of s =
     (if s = ''HIGH'' then Some HIGH
      else if s = ''MID'' then Some MID
      else if s = ''LOW'' then Some LOW
      else None)"

text \<open>Modelled from the spec: the enumeration lookup \<^verbatim>\<open>Status(s)\<close>.\<close>

definition Status_of :: "string \<Rightarrow> Status option" where
  "Status_of s =
     (if s = ''PENDING'' then Some PENDING
      else if s = ''COMPLETED'' then Some COMPLETED
      else None)"

text \<open>
  Modelled from the spec: the \<^verbatim>\<open>TodoItem\<close> entity of the absent \<^verbatim>\<open>models\<close>
  module, with the nine fields of the data model. \<open>due_date = None\<close> is the absent
  due date.
\<close>

record TodoItem =
  todo_id :: string
  title :: string
  details :: string
  priority :: Priority
  status :: Status
  owner :: string
  created_at :: string
  updated_at :: string
  due_date :: "string option"

text \<open>
  Modelled from the spec: the persisted record, the output type of \<^verbatim>\<open>to_dict\<close>. The
  persisted layout has the eight string keys \<^verbatim>\<open>id, title, details, priority, status,
  owner, created_at, updated_at\<close> always present; the key \<^verbatim>\<open>due_date\<close> is either
  present with a string or omitted, which is \<open>None\<close> here. \<^verbatim>\<open>priority\<close> and
  \<^verbatim>\<open>status\<close> are plain strings in the document: any string can stand there.
\<close>

record todo_dict =
  d_id :: string
  d_title :: string
  d_details :: string
  d_priority :: string
  d_status :: string
  d_owner :: string
  d_created_at :: string
  d_updated_at :: string
  d_due_date :: "string option"

datatype error = DecodingError | EOFError

text \<open>
  Modelled from the spec: \<^verbatim>\<open>TodoItem.to_dict\<close> (Encode). The enumerations are written
  as their tags; the due date key is produced only when the item has a due date.
\<close>

definition to_dict :: "TodoItem \<Rightarrow> todo_dict" where
  "to_dict x =
     \<lparr> d_id = todo_id x,
       d_title = title x,
       d_details = details x,
       d_priority = Priority_value (priority x),
       d_status = Status_value (status x),
       d_owner = owner x,
       d_created_at = created_at x,
       d_updated_at = updated_at x,
       d_due_date = (case due_date x of None \<Rightarrow> None | Some d \<Rightarrow> Some d) \<rparr>"

text \<open>
  Modelled from the spec: \<^verbatim>\<open>TodoItem.from_dict\<close> (Decode). It fails with a decoding
  error when the priority or the status string is not a member of its enumeration, and the
  item has no due date if and only if the key is missing from the record.
\<close>

definition from_dict :: "todo_dict \<Rightarrow> error + TodoItem" where
  "from_dict d =
     (case Priority_of (d_priority d) of
        None \<Rightarrow> Inl DecodingError
      | Some p \<Rightarrow>
          (case Status_of (d_status d) of
             None \<Rightarrow> Inl DecodingError
           | Some s \<Rightarrow>
               Inr \<lparr> todo_id = d_id d,
                     title = d_title d,
                     details = d_details d,
                     priority = p,
                     status = s,
                     owner = d_owner d,
                     created_at = d_created_at d,
                     updated_at = d_updated_at d,
                     due_date = d_due_date d \<rparr>))"

section \<open>Store layer: \<^verbatim>\<open>TodoManager\<close>\<close>

text \<open>
  The manager keeps the whole collection in one JSON document, a list of records. Its
  constructor creates the document as the empty list when it does not exist, so every
  operation finds a document; the state of the manager is the content of that document.
  Every operation loads the whole list and the writing ones store a whole list back.
\<close>

type_synonym document = "todo_dict list"

definition ensure_file_exists :: "document option \<Rightarrow> document" where
  "ensure_file_exists f = (case f of None \<Rightarrow> [] | Some doc \<Rightarrow> doc)"

definition load_todos :: "document \<Rightarrow> todo_dict list" where
  "load_todos doc = doc"

definition save_todos :: "todo_dict list \<Rightarrow> document \<Rightarrow> document" where
  "save_todos todos doc = todos"

text \<open>
  \<^verbatim>\<open>add_todo\<close>: load, append the encoded item, save, return \<^verbatim>\<open>True\<close>. The result is
  the returned flag and the document afterwards.
\<close>

definition add_todo :: "TodoItem \<Rightarrow> document \<Rightarrow> bool \<times> document" where
  "add_todo todo doc =
     (let todos = load_todos doc;
          todos' = todos @ [to_dict todo];
          doc' = save_todos todos' doc
      in (True, doc'))"

text \<open>
  The list comprehension of \<^verbatim>\<open>get_user_todos\<close>,
  \<^verbatim>\<open>[TodoItem.from_dict(todo) for todo in todos if todo["owner"] == username]\<close>:
  it walks the records in order, tests the condition on the stored record and decodes the
  record only when the condition holds. The first decoding failure ends the whole
  comprehension with that error.
\<close>

fun user_items :: "string \<Rightarrow> todo_dict list \<Rightarrow> error + TodoItem list" where
  "user_items username [] = Inr []"
| "user_items username (todo # todos) =
     (if d_owner todo = username then
        (case from_dict todo of
           Inl e \<Rightarrow> Inl e
         | Inr x \<Rightarrow>
             (case user_items username todos of
                Inl e \<Rightarrow> Inl e
              | Inr xs \<Rightarrow> Inr (x # xs)))
      else user_items username todos)"

definition get_user_todos :: "string \<Rightarrow> document \<Rightarrow> error + TodoItem list" where
  "get_user_todos username doc = (let todos = load_todos doc in user_items username todos)"

text \<open>A sequence of \<^verbatim>\<open>add_todo\<close> calls, keeping every returned flag.\<close>

fun add_todo_seq :: "TodoItem list \<Rightarrow> document \<Rightarrow> bool list \<times> document" where
  "add_todo_seq [] doc = ([], doc)"
| "add_todo_seq (todo # rest) doc =
     (let (ok, doc') = add_todo todo doc;
          (oks, doc'') = add_todo_seq rest doc'
      in (ok # oks, doc''))"

subsection \<open>Operations of the store that \<^verbatim>\<open>main.py\<close> does not define\<close>

text \<open>
  The tests call \<^verbatim>\<open>TodoManager.update_todo\<close> and \<^verbatim>\<open>TodoManager.get_todo_by_id\<close>,
  and the class in \<^verbatim>\<open>main.py\<close> has neither method. Both are modelled from the
  specification of the store.
\<close>

text \<open>
  Modelled from the spec: locating a record by id, used by \<^verbatim>\<open>get_todo_by_id\<close> and
  \<^verbatim>\<open>update_todo\<close>, which \<^verbatim>\<open>main.py\<close> lacks: the first record of the collection
  whose id matches.
\<close>

fun find_by_id :: "string \<Rightarrow> todo_dict list \<Rightarrow> todo_dict option" where
  "find_by_id i [] = None"
| "find_by_id i (d # ds) = (if d_id d = i then Some d else find_by_id i ds)"

text \<open>
  Modelled from the spec: \<^verbatim>\<open>TodoManager.get_todo_by_id\<close>, missing from
  \<^verbatim>\<open>main.py\<close>. Load the collection and find the first record whose id matches; a
  record found must also belong to the owner, or the lookup is treated as not found
  (\<open>Inr None\<close>). A record that passes both tests is decoded.
\<close>

definition get_todo_by_id :: "string \<Rightarrow> string \<Rightarrow> document \<Rightarrow> error + TodoItem option" where
  "get_todo_by_id i username doc =
     (case find_by_id i (load_todos doc) of
        None \<Rightarrow> Inr None
      | Some d \<Rightarrow>
          (if d_owner d = username then
             (case from_dict d of Inl e \<Rightarrow> Inl e | Inr x \<Rightarrow> Inr (Some x))
           else Inr None))"

text \<open>
  Modelled from the spec: the search-and-replace pass of \<^verbatim>\<open>update_todo\<close>, missing
  from \<^verbatim>\<open>main.py\<close>. The existing record is located by the item's id; the pass fails
  (\<open>None\<close>) when no record has that id and when the located record has another owner;
  on a match the record is replaced in place by the encoded item.
\<close>

fun replace_by_id :: "TodoItem \<Rightarrow> todo_dict list \<Rightarrow> todo_dict list option" where
  "replace_by_id item [] = None"
| "replace_by_id item (d # ds) =
     (if d_id d = todo_id item then
        (if d_owner d = owner item then Some (to_dict item # ds) else None)
      else
        (case replace_by_id item ds of
           None \<Rightarrow> None
         | Some ds' \<Rightarrow> Some (d # ds')))"

text \<open>
  Modelled from the spec: \<^verbatim>\<open>TodoManager.update_todo\<close>, missing from
  \<^verbatim>\<open>main.py\<close>. Failure is the flag \<^verbatim>\<open>False\<close> and nothing is written; success
  writes the whole collection back and returns \<^verbatim>\<open>True\<close>.
\<close>

definition update_todo :: "TodoItem \<Rightarrow> document \<Rightarrow> bool \<times> document" where
  "update_todo item doc =
     (case replace_by_id item (load_todos doc) of
        None \<Rightarrow> (False, doc)
      | Some todos \<Rightarrow> (True, save_todos todos doc))"

section \<open>The command-line layer: \<^verbatim>\<open>App.handle_add_todo\<close>\<close>

text \<open>
  Strings are lists of characters with code points below 256. \<open>isspace\<close> is Python's
  \<^verbatim>\<open>str.isspace\<close> on that range, \<open>strip\<close> is \<^verbatim>\<open>str.strip()\<close> and \<open>upper\<close> is
  \<^verbatim>\<open>str.upper()\<close> on the ASCII letters; every other character is left as it is. Among
  the code points from 128 to 255, \<^verbatim>\<open>str.upper()\<close> produces an ASCII letter only for
  U+00DF, which becomes \<^verbatim>\<open>SS\<close>, and no priority tag contains that letter: on strings
  of this range the upper-cased input is a priority tag here exactly when it is one in
  Python. Characters beyond 255 (such as U+0131, whose upper case is \<^verbatim>\<open>I\<close>) are not
  strings of this model.
\<close>

definition isspace :: "char \<Rightarrow> bool" where
  "isspace c = ((of_char c :: nat) \<in> {9, 10, 11, 12, 13, 28, 29, 30, 31, 32, 133, 160})"

definition strip :: "string \<Rightarrow> string" where
  "strip s = rev (dropWhile isspace (rev (dropWhile isspace s)))"

definition upper_char :: "char \<Rightarrow> char" where
  "upper_char c =
     (case map_of (zip ''abcdefghijklmnopqrstuvwxyz'' ''ABCDEFGHIJKLMNOPQRSTUVWXYZ'') c of
        None \<Rightarrow> c
      | Some C \<Rightarrow> C)"

definition upper :: "string \<Rightarrow> string" where
  "upper s = map upper_char s"

text \<open>
  The console: the lines still to be read by \<^verbatim>\<open>input\<close> and everything written so
  far, prompts included. \<^verbatim>\<open>input(prompt)\<close> writes the prompt and returns the next line;
  with no line left it raises \<^verbatim>\<open>EOFError\<close>.
\<close>

record console =
  stdin :: "string list"
  stdout :: "string list"

definition print :: "string \<Rightarrow> console \<Rightarrow> console" where
  "print msg c = c\<lparr>stdout := stdout c @ [msg]\<rparr>"

definition input :: "string \<Rightarrow> console \<Rightarrow> error + (string \<times> console)" where
  "input prompt c =
     (case stdin c of
        [] \<Rightarrow> Inl EOFError
      | l # ls \<Rightarrow> Inr (l, c\<lparr>stdin := ls, stdout := stdout c @ [prompt]\<rparr>))"

text \<open>
  Modelled from the spec: the constructor of \<^verbatim>\<open>TodoItem\<close>, of the absent
  \<^verbatim>\<open>models\<close> module. An omitted id is a freshly generated identifier, omitted
  timestamps are the current time, the due date defaults to absent. The fresh identifier
  and the current time come from the environment and are parameters here.
\<close>

definition TodoItem_init ::
  "string \<Rightarrow> string \<Rightarrow> Priority \<Rightarrow> Status \<Rightarrow> string \<Rightarrow>
   string option \<Rightarrow> string option \<Rightarrow> string option \<Rightarrow> string option \<Rightarrow>
   string \<Rightarrow> string \<Rightarrow> TodoItem" where
  "TodoItem_init title' details' priority' status' owner' id' created_at' updated_at' due_date'
     fresh_id now =
     \<lparr> todo_id = (case id' of None \<Rightarrow> fresh_id | Some i \<Rightarrow> i),
       title = title',
       details = details',
       priority = priority',
       status = status',
       owner = owner',
       created_at = (case created_at' of None \<Rightarrow> now | Some t \<Rightarrow> t),
       updated_at = (case updated_at' of None \<Rightarrow> now | Some t \<Rightarrow> t),
       due_date = due_date' \<rparr>"

text \<open>
  The application state that \<^verbatim>\<open>handle_add_todo\<close> touches: the document of its
  \<^verbatim>\<open>todo_manager\<close> and \<^verbatim>\<open>current_user\<close>. The handler is called from the loop
  \<^verbatim>\<open>while self.current_user\<close> of \<^verbatim>\<open>run\<close>, so a user name is set when it runs.
\<close>

record App =
  todo_manager :: document
  current_user :: string

text \<open>
  \<^verbatim>\<open>handle_add_todo\<close>: three prompts (title, details, priority), each input stripped,
  the priority upper-cased and looked up, with \<^verbatim>\<open>MID\<close> and a message on a lookup
  failure; then the item is built with status \<^verbatim>\<open>PENDING\<close>, the current user as owner and
  every optional argument of the constructor left out, and handed to \<^verbatim>\<open>add_todo\<close>.
\<close>

definition handle_add_todo :: "string \<Rightarrow> string \<Rightarrow> App \<Rightarrow> console \<Rightarrow> error + (App \<times> console)" where
  "handle_add_todo fresh_id now app c0 =
     (case input ''Enter todo title: '' c0 of
        Inl e \<Rightarrow> Inl e
      | Inr (l1, c1) \<Rightarrow>
     (case input ''Enter todo details: '' c1 of
        Inl e \<Rightarrow> Inl e
      | Inr (l2, c2) \<Rightarrow>
     (case input ''Enter priority (HIGH/MID/LOW): '' c2 of
        Inl e \<Rightarrow> Inl e
      | Inr (l3, c3) \<Rightarrow>
          (let title' = strip l1;
               details' = strip l2;
               priority_str = upper (strip l3);
               (priority', c4) =
                 (case Priority_of priority_str of
                    Some p \<Rightarrow> (p, c3)
                  | None \<Rightarrow> (MID, print ''Invalid priority. Defaulting to MID.'' c3));
               todo = TodoItem_init title' details' priority' PENDING (current_user app)
                        None None None None fresh_id now;
               (ok, doc') = add_todo todo (todo_manager app);
               c5 = (if ok then print ''Todo added successfully!'' c4 else c4)
           in Inr (app\<lparr>todo_manager := doc'\<rparr>, c5)))))"

section \<open>Properties of the codec\<close>

lemma Priority_of_value [simp]: "Priority_of (Priority_value p) = Some p"
  by (cases p) (simp_all add: Priority_of_def)

lemma Status_of_value [simp]: "Status_of (Status_value s) = Some s"
  by (cases s) (simp_all add: Status_of_def)

lemma Priority_of_Some: "Priority_of s = Some p \<longleftrightarrow> s = Priority_value p"
  by (cases p) (auto simp: Priority_of_def split: if_splits)

lemma Status_of_Some: "Status_of s = Some t \<longleftrightarrow> s = Status_value t"
  by (cases t) (auto simp: Status_of_def split: if_splits)

lemma Priority_of_None:
  "Priority_of s = None \<longleftrightarrow> s \<notin> {''HIGH'', ''MID'', ''LOW''}"
  by (simp add: Priority_of_def)

lemma Status_of_None:
  "Status_of s = None \<longleftrightarrow> s \<notin> {''PENDING'', ''COMPLETED''}"
  by (simp add: Status_of_def)

lemma from_dict_to_dict [simp]: "from_dict (to_dict x) = Inr x"
  by (cases "due_date x") (simp_all add: from_dict_def to_dict_def)

section \<open>The store operations as list functions\<close>

lemma load_save [simp]: "load_todos doc = doc" "save_todos todos doc = todos"
  by (simp_all add: load_todos_def save_todos_def)

lemma add_todo_eq: "add_todo todo doc = (True, doc @ [to_dict todo])"
  by (simp add: add_todo_def)

lemma add_todo_seq_eq:
  "add_todo_seq xs doc = (replicate (length xs) True, doc @ map to_dict xs)"
  by (induction xs arbitrary: doc) (simp_all add: add_todo_eq)

lemma d_owner_to_dict [simp]: "d_owner (to_dict x) = owner x"
  by (simp add: to_dict_def)

lemma user_items_append:
  "user_items u (ds @ es) =
     (case user_items u ds of
        Inl e \<Rightarrow> Inl e
      | Inr xs \<Rightarrow> (case user_items u es of Inl e \<Rightarrow> Inl e | Inr ys \<Rightarrow> Inr (xs @ ys)))"
  by (induction ds) (auto split: sum.splits)

lemma user_items_map_to_dict:
  "user_items u (map to_dict xs) = Inr (filter (\<lambda>x. owner x = u) xs)"
  by (induction xs) simp_all

lemma from_dict_error: "from_dict d = Inl e \<Longrightarrow> e = DecodingError"
  by (auto simp: from_dict_def split: option.splits)

lemma from_dict_fails_iff:
  "from_dict d = Inl DecodingError \<longleftrightarrow>
     d_priority d \<notin> {''HIGH'', ''MID'', ''LOW''} \<or> d_status d \<notin> {''PENDING'', ''COMPLETED''}"
  by (auto simp: from_dict_def Priority_of_None[symmetric] Status_of_None[symmetric]
           simp del: insert_iff split: option.splits)

lemma from_dict_InrD:
  "from_dict d = Inr x \<Longrightarrow> to_dict x = d"
  by (auto simp: from_dict_def to_dict_def Priority_of_Some Status_of_Some
           split: option.splits)

lemma user_items_filter:
  "user_items u (filter (\<lambda>d. d_owner d = u) ds) = user_items u ds"
  by (induction ds) (simp_all split: sum.splits)

lemma user_items_fails_iff:
  "user_items u ds = Inl DecodingError \<longleftrightarrow>
     (\<exists>d \<in> set ds. d_owner d = u \<and> from_dict d = Inl DecodingError)"
  by (induction ds) (auto split: sum.splits dest: from_dict_error)

lemma user_items_error: "user_items u ds = Inl e \<Longrightarrow> e = DecodingError"
  by (induction ds) (auto split: sum.splits if_splits dest: from_dict_error)

lemma user_items_InrD:
  "user_items u ds = Inr xs \<Longrightarrow> map to_dict xs = filter (\<lambda>d. d_owner d = u) ds"
  by (induction ds arbitrary: xs) (auto split: sum.splits if_splits dest: from_dict_InrD)

section \<open>Locating and replacing a record by id\<close>

lemma find_by_id_None_iff: "find_by_id i ds = None \<longleftrightarrow> (\<forall>d \<in> set ds. d_id d \<noteq> i)"
  by (induction ds) auto

lemma find_by_id_SomeD:
  "find_by_id i ds = Some d \<Longrightarrow>
     \<exists>k < length ds. ds ! k = d \<and> d_id d = i \<and> (\<forall>j < k. d_id (ds ! j) \<noteq> i)"
proof (induction ds)
  case Nil
  then show ?case by simp
next
  case (Cons a ds)
  show ?case
  proof (cases "d_id a = i")
    case True
    with Cons.prems have "a = d" by simp
    with True show ?thesis by (intro exI[of _ 0]) simp
  next
    case False
    with Cons.prems have "find_by_id i ds = Some d" by simp
    from Cons.IH[OF this] obtain k where k: "k < length ds" "ds ! k = d" "d_id d = i"
      "\<forall>j < k. d_id (ds ! j) \<noteq> i" by blast
    have "\<forall>j < Suc k. d_id ((a # ds) ! j) \<noteq> i"
      using False k(4) by (auto simp: less_Suc_eq_0_disj)
    with k show ?thesis by (intro exI[of _ "Suc k"]) simp
  qed
qed

lemma find_by_id_unique:
  "distinct (map d_id ds) \<Longrightarrow> d \<in> set ds \<Longrightarrow> find_by_id (d_id d) ds = Some d"
  by (induction ds) (auto simp: image_iff)


lemma replace_by_id_match:
  "find_by_id (todo_id item) ds = Some d \<Longrightarrow> d_owner d = owner item \<Longrightarrow>
     \<exists>k < length ds. ds ! k = d \<and> (\<forall>j < k. d_id (ds ! j) \<noteq> todo_id item) \<and>
       replace_by_id item ds = Some (ds[k := to_dict item])"
proof (induction ds)
  case Nil
  then show ?case by simp
next
  case (Cons a ds)
  show ?case
  proof (cases "d_id a = todo_id item")
    case True
    with Cons.prems have "a = d" by simp
    with True Cons.prems(2) show ?thesis by (intro exI[of _ 0]) simp
  next
    case False
    with Cons.prems have "find_by_id (todo_id item) ds = Some d" by simp
    from Cons.IH[OF this Cons.prems(2)] obtain k where k: "k < length ds" "ds ! k = d"
      "\<forall>j < k. d_id (ds ! j) \<noteq> todo_id item"
      "replace_by_id item ds = Some (ds[k := to_dict item])" by blast
    have "\<forall>j < Suc k. d_id ((a # ds) ! j) \<noteq> todo_id item"
      using False k(3) by (auto simp: less_Suc_eq_0_disj)
    with k False show ?thesis by (intro exI[of _ "Suc k"]) simp
  qed
qed



lemma update_todo_match_unique_ids:
  assumes "distinct (map d_id doc)" and "d \<in> set doc"
    and "d_id d = todo_id item" and "d_owner d = owner item"
  shows "fst (update_todo item doc) \<and> length (snd (update_todo item doc)) = length doc"
proof -
  from find_by_id_unique[OF assms(1,2)] assms(3)
  have "find_by_id (todo_id item) doc = Some d" by simp
  from replace_by_id_match[OF this assms(4)] obtain k where
    "replace_by_id item doc = Some (doc[k := to_dict item])" by blast
  then show ?thesis by (simp add: update_todo_def)
qed

section \<open>The add handler on a console with three lines\<close>

lemma input_Cons:
  "input p \<lparr>stdin = l # ls, stdout = out\<rparr> = Inr (l, \<lparr>stdin = ls, stdout = out @ [p]\<rparr>)"
  by (simp add: input_def)

lemma handle_add_todo_eq:
  "handle_add_todo fresh_id now app \<lparr>stdin = l1 # l2 # l3 # rest, stdout = out\<rparr> =
     Inr (app\<lparr>todo_manager := todo_manager app @
              [to_dict \<lparr> todo_id = fresh_id, title = strip l1, details = strip l2,
                        priority = (case Priority_of (upper (strip l3)) of
                                      None \<Rightarrow> MID | Some p \<Rightarrow> p),
                        status = PENDING, owner = current_user app,
                        created_at = now, updated_at = now, due_date = None \<rparr>]\<rparr>,
          \<lparr>stdin = rest,
           stdout = out @ [''Enter todo title: '', ''Enter todo details: '',
                           ''Enter priority (HIGH/MID/LOW): ''] @
                    (case Priority_of (upper (strip l3)) of
                       None \<Rightarrow> [''Invalid priority. Defaulting to MID.'']
                     | Some p \<Rightarrow> []) @
                    [''Todo added successfully!'']\<rparr>)"
  by (simp add: handle_add_todo_def input_Cons add_todo_eq TodoItem_init_def print_def
           split: option.splits)

lemma handle_add_todo_eof:
  "length (stdin c) < 3 \<Longrightarrow> handle_add_todo fresh_id now app c = Inl EOFError"
  by (cases c; cases "stdin c"; cases "tl (stdin c)"; cases "tl (tl (stdin c))")
     (auto simp: handle_add_todo_def input_def)

lemma three_lines:
  "3 \<le> length ls \<Longrightarrow> \<exists>l1 l2 l3 rest. ls = l1 # l2 # l3 # rest"
  by (cases ls; cases "tl ls"; cases "tl (tl ls)") auto

section \<open>The claims\<close>

text \<open>
  C1. Decoding the encoding of an item gives the item back, field for field: for every
  item \<open>x\<close> (the enumerations are types, so every priority and status is a member; the
  due date present or absent), \<open>from_dict (to_dict x)\<close> succeeds with an item whose nine
  fields equal those of \<open>x\<close>; its due date is absent exactly when that of \<open>x\<close> is, and
  the encoded record omits the due date key exactly then.
\<close>

theorem C1_round_trip:
  "\<exists>y. from_dict (to_dict x) = Inr y \<and>
        todo_id y = todo_id x \<and> title y = title x \<and> details y = details x \<and>
        priority y = priority x \<and> status y = status x \<and> owner y = owner x \<and>
        created_at y = created_at x \<and> updated_at y = updated_at x \<and>
        due_date y = due_date x \<and>
        (due_date y = None \<longleftrightarrow> due_date x = None) \<and>
        (d_due_date (to_dict x) = None \<longleftrightarrow> due_date x = None) \<and>
        y = x"
proof -
  have "d_due_date (to_dict x) = due_date x"
    by (cases "due_date x") (simp_all add: to_dict_def)
  then show ?thesis by (intro exI[of _ x]) simp
qed




text \<open>
  C3. After any sequence of \<open>add_todo\<close> calls on a new, empty document, every call has
  returned \<open>True\<close> and \<open>get_user_todos u\<close> returns exactly the added items whose owner
  is \<open>u\<close>, in the order of the calls, which is the order of the document: the result is
  the sequence of added items filtered by owner, nothing is sorted. On a document that
  already holds records, the added items of \<open>u\<close> follow the items that the document gave
  before.
\<close>

theorem C3_add_then_get_user_todos:
  "fst (add_todo_seq xs []) = replicate (length xs) True \<and>
   get_user_todos u (snd (add_todo_seq xs [])) = Inr (filter (\<lambda>x. owner x = u) xs) \<and>
   get_user_todos u (snd (add_todo_seq xs doc)) =
     (case get_user_todos u doc of
        Inl e \<Rightarrow> Inl e
      | Inr ys \<Rightarrow> Inr (ys @ filter (\<lambda>x. owner x = u) xs))"
  by (simp add: add_todo_seq_eq get_user_todos_def user_items_append user_items_map_to_dict
           split: sum.splits)

text \<open>
  C4. \<open>from_dict\<close> fails with the decoding error exactly when the stored priority is
  none of \<open>HIGH\<close>, \<open>MID\<close>, \<open>LOW\<close> or the stored status is none of \<open>PENDING\<close>,
  \<open>COMPLETED\<close>, and it has no other failure. Every pair of members decodes to the
  matching enumeration values, and a decoded item always carries the values whose tags
  stand in the record: no string outside the enumerations is turned into a default.
\<close>

theorem C4_decode_enumerations:
  "(from_dict d = Inl DecodingError \<longleftrightarrow>
      d_priority d \<notin> {''HIGH'', ''MID'', ''LOW''} \<or>
      d_status d \<notin> {''PENDING'', ''COMPLETED''}) \<and>
   (\<forall>e. from_dict d = Inl e \<longrightarrow> e = DecodingError) \<and>
   (\<forall>p s. d_priority d = Priority_value p \<and> d_status d = Status_value s \<longrightarrow>
      (\<exists>x. from_dict d = Inr x \<and> priority x = p \<and> status x = s)) \<and>
   (\<forall>x. from_dict d = Inr x \<longrightarrow>
      Priority_value (priority x) = d_priority d \<and> Status_value (status x) = d_status d)"
proof (intro conjI allI impI)
  show "from_dict d = Inl DecodingError \<longleftrightarrow>
      d_priority d \<notin> {''HIGH'', ''MID'', ''LOW''} \<or>
      d_status d \<notin> {''PENDING'', ''COMPLETED''}"
    by (rule from_dict_fails_iff)
next
  fix e assume "from_dict d = Inl e"
  then show "e = DecodingError" by (rule from_dict_error)
next
  fix p s assume "d_priority d = Priority_value p \<and> d_status d = Status_value s"
  then show "\<exists>x. from_dict d = Inr x \<and> priority x = p \<and> status x = s"
    by (simp add: from_dict_def)
next
  fix x assume "from_dict d = Inr x"
  then have "to_dict x = d" by (rule from_dict_InrD)
  then have "d_priority d = Priority_value (priority x)" "d_status d = Status_value (status x)"
    by (auto simp: to_dict_def)
  then show "Priority_value (priority x) = d_priority d"
    and "Status_value (status x) = d_status d" by simp_all
qed

theorem C4_decode_enumerations_witness:
  "from_dict \<lparr>d_id = ''1'', d_title = ''t'', d_details = '''', d_priority = ''INVALID'', d_status = ''PENDING'', d_owner = ''bob'', d_created_at = ''2025-01-20T10:00:00'', d_updated_at = ''2025-01-20T10:00:00'', d_due_date = None\<rparr> = Inl DecodingError \<and>
   (\<exists>x. from_dict \<lparr>d_id = ''2'', d_title = ''t'', d_details = '''', d_priority = ''LOW'', d_status = ''COMPLETED'', d_owner = ''alice'', d_created_at = ''2025-01-20T10:00:00'', d_updated_at = ''2025-01-20T10:00:00'', d_due_date = None\<rparr> = Inr x \<and> priority x = LOW \<and> status x = COMPLETED)"
proof -
  have b: "d_priority \<lparr>d_id = ''1'', d_title = ''t'', d_details = '''', d_priority = ''INVALID'', d_status = ''PENDING'', d_owner = ''bob'', d_created_at = ''2025-01-20T10:00:00'', d_updated_at = ''2025-01-20T10:00:00'', d_due_date = None\<rparr> \<notin> {''HIGH'', ''MID'', ''LOW''}"
    by simp
  have g: "d_priority \<lparr>d_id = ''2'', d_title = ''t'', d_details = '''', d_priority = ''LOW'', d_status = ''COMPLETED'', d_owner = ''alice'', d_created_at = ''2025-01-20T10:00:00'', d_updated_at = ''2025-01-20T10:00:00'', d_due_date = None\<rparr> = Priority_value LOW \<and> d_status \<lparr>d_id = ''2'', d_title = ''t'', d_details = '''', d_priority = ''LOW'', d_status = ''COMPLETED'', d_owner = ''alice'', d_created_at = ''2025-01-20T10:00:00'', d_updated_at = ''2025-01-20T10:00:00'', d_due_date = None\<rparr> = Status_value COMPLETED"
    by simp
  from b C4_decode_enumerations[of "\<lparr>d_id = ''1'', d_title = ''t'', d_details = '''', d_priority = ''INVALID'', d_status = ''PENDING'', d_owner = ''bob'', d_created_at = ''2025-01-20T10:00:00'', d_updated_at = ''2025-01-20T10:00:00'', d_due_date = None\<rparr>"]
  have r1: "from_dict \<lparr>d_id = ''1'', d_title = ''t'', d_details = '''', d_priority = ''INVALID'', d_status = ''PENDING'', d_owner = ''bob'', d_created_at = ''2025-01-20T10:00:00'', d_updated_at = ''2025-01-20T10:00:00'', d_due_date = None\<rparr> = Inl DecodingError"
    by blast
  from g C4_decode_enumerations[of "\<lparr>d_id = ''2'', d_title = ''t'', d_details = '''', d_priority = ''LOW'', d_status = ''COMPLETED'', d_owner = ''alice'', d_created_at = ''2025-01-20T10:00:00'', d_updated_at = ''2025-01-20T10:00:00'', d_due_date = None\<rparr>"]
  have r2: "\<exists>x. from_dict \<lparr>d_id = ''2'', d_title = ''t'', d_details = '''', d_priority = ''LOW'', d_status = ''COMPLETED'', d_owner = ''alice'', d_created_at = ''2025-01-20T10:00:00'', d_updated_at = ''2025-01-20T10:00:00'', d_due_date = None\<rparr> = Inr x \<and> priority x = LOW \<and> status x = COMPLETED"
    by blast
  from r1 r2 show ?thesis by (rule conjI)
qed

text \<open>
  C5, as the code has it. \<open>get_user_todos u\<close> tests the owner on the stored record
  first and decodes only the records whose owner is \<open>u\<close>. It fails, with the decoding
  error and no other, exactly when some record owned by \<open>u\<close> has a priority or a status
  outside its enumeration; it then returns no partial result. When it succeeds, the
  items returned encode to exactly the records of \<open>u\<close>, in the order of the document, so
  no record of \<open>u\<close> is skipped. Records of other owners are never decoded: the result
  is the same as on the document with those records removed.
\<close>

theorem C5_get_user_todos_filters_then_decodes:
  "(get_user_todos u doc = Inl DecodingError \<longleftrightarrow>
      (\<exists>d \<in> set doc. d_owner d = u \<and>
         (d_priority d \<notin> {''HIGH'', ''MID'', ''LOW''} \<or>
          d_status d \<notin> {''PENDING'', ''COMPLETED''}))) \<and>
   (\<forall>e. get_user_todos u doc = Inl e \<longrightarrow> e = DecodingError) \<and>
   (\<forall>xs. get_user_todos u doc = Inr xs \<longrightarrow>
      map to_dict xs = filter (\<lambda>d. d_owner d = u) doc) \<and>
   get_user_todos u (filter (\<lambda>d. d_owner d = u) doc) = get_user_todos u doc"
proof (intro conjI allI impI)
  show "get_user_todos u doc = Inl DecodingError \<longleftrightarrow>
      (\<exists>d \<in> set doc. d_owner d = u \<and>
         (d_priority d \<notin> {''HIGH'', ''MID'', ''LOW''} \<or>
          d_status d \<notin> {''PENDING'', ''COMPLETED''}))"
    by (simp only: get_user_todos_def Let_def load_save user_items_fails_iff from_dict_fails_iff)
next
  fix e assume "get_user_todos u doc = Inl e"
  then show "e = DecodingError" by (simp add: get_user_todos_def user_items_error)
next
  fix xs assume "get_user_todos u doc = Inr xs"
  then show "map to_dict xs = filter (\<lambda>d. d_owner d = u) doc"
    by (simp add: get_user_todos_def user_items_InrD)
next
  show "get_user_todos u (filter (\<lambda>d. d_owner d = u) doc) = get_user_todos u doc"
    by (simp add: get_user_todos_def user_items_filter)
qed

theorem C5_get_user_todos_filters_then_decodes_witness:
  "get_user_todos ''bob'' [\<lparr>d_id = ''1'', d_title = ''t'', d_details = '''', d_priority = ''INVALID'', d_status = ''PENDING'', d_owner = ''bob'', d_created_at = ''2025-01-20T10:00:00'', d_updated_at = ''2025-01-20T10:00:00'', d_due_date = None\<rparr>, \<lparr>d_id = ''2'', d_title = ''t'', d_details = '''', d_priority = ''LOW'', d_status = ''COMPLETED'', d_owner = ''alice'', d_created_at = ''2025-01-20T10:00:00'', d_updated_at = ''2025-01-20T10:00:00'', d_due_date = None\<rparr>] = Inl DecodingError \<and>
   get_user_todos ''alice'' [\<lparr>d_id = ''1'', d_title = ''t'', d_details = '''', d_priority = ''INVALID'', d_status = ''PENDING'', d_owner = ''bob'', d_created_at = ''2025-01-20T10:00:00'', d_updated_at = ''2025-01-20T10:00:00'', d_due_date = None\<rparr>, \<lparr>d_id = ''2'', d_title = ''t'', d_details = '''', d_priority = ''LOW'', d_status = ''COMPLETED'', d_owner = ''alice'', d_created_at = ''2025-01-20T10:00:00'', d_updated_at = ''2025-01-20T10:00:00'', d_due_date = None\<rparr>] \<noteq> Inl DecodingError \<and>
   get_user_todos ''alice'' [\<lparr>d_id = ''2'', d_title = ''t'', d_details = '''', d_priority = ''LOW'', d_status = ''COMPLETED'', d_owner = ''alice'', d_created_at = ''2025-01-20T10:00:00'', d_updated_at = ''2025-01-20T10:00:00'', d_due_date = None\<rparr>] = get_user_todos ''alice'' [\<lparr>d_id = ''1'', d_title = ''t'', d_details = '''', d_priority = ''INVALID'', d_status = ''PENDING'', d_owner = ''bob'', d_created_at = ''2025-01-20T10:00:00'', d_updated_at = ''2025-01-20T10:00:00'', d_due_date = None\<rparr>, \<lparr>d_id = ''2'', d_title = ''t'', d_details = '''', d_priority = ''LOW'', d_status = ''COMPLETED'', d_owner = ''alice'', d_created_at = ''2025-01-20T10:00:00'', d_updated_at = ''2025-01-20T10:00:00'', d_due_date = None\<rparr>]"
proof -
  from C5_get_user_todos_filters_then_decodes[of "''bob''" "[\<lparr>d_id = ''1'', d_title = ''t'', d_details = '''', d_priority = ''INVALID'', d_status = ''PENDING'', d_owner = ''bob'', d_created_at = ''2025-01-20T10:00:00'', d_updated_at = ''2025-01-20T10:00:00'', d_due_date = None\<rparr>, \<lparr>d_id = ''2'', d_title = ''t'', d_details = '''', d_priority = ''LOW'', d_status = ''COMPLETED'', d_owner = ''alice'', d_created_at = ''2025-01-20T10:00:00'', d_updated_at = ''2025-01-20T10:00:00'', d_due_date = None\<rparr>]"]
  have r1: "get_user_todos ''bob'' [\<lparr>d_id = ''1'', d_title = ''t'', d_details = '''', d_priority = ''INVALID'', d_status = ''PENDING'', d_owner = ''bob'', d_created_at = ''2025-01-20T10:00:00'', d_updated_at = ''2025-01-20T10:00:00'', d_due_date = None\<rparr>, \<lparr>d_id = ''2'', d_title = ''t'', d_details = '''', d_priority = ''LOW'', d_status = ''COMPLETED'', d_owner = ''alice'', d_created_at = ''2025-01-20T10:00:00'', d_updated_at = ''2025-01-20T10:00:00'', d_due_date = None\<rparr>] = Inl DecodingError"
    by simp
  from C5_get_user_todos_filters_then_decodes[of "''alice''" "[\<lparr>d_id = ''1'', d_title = ''t'', d_details = '''', d_priority = ''INVALID'', d_status = ''PENDING'', d_owner = ''bob'', d_created_at = ''2025-01-20T10:00:00'', d_updated_at = ''2025-01-20T10:00:00'', d_due_date = None\<rparr>, \<lparr>d_id = ''2'', d_title = ''t'', d_details = '''', d_priority = ''LOW'', d_status = ''COMPLETED'', d_owner = ''alice'', d_created_at = ''2025-01-20T10:00:00'', d_updated_at = ''2025-01-20T10:00:00'', d_due_date = None\<rparr>]"]
  have r2: "get_user_todos ''alice'' [\<lparr>d_id = ''1'', d_title = ''t'', d_details = '''', d_priority = ''INVALID'', d_status = ''PENDING'', d_owner = ''bob'', d_created_at = ''2025-01-20T10:00:00'', d_updated_at = ''2025-01-20T10:00:00'', d_due_date = None\<rparr>, \<lparr>d_id = ''2'', d_title = ''t'', d_details = '''', d_priority = ''LOW'', d_status = ''COMPLETED'', d_owner = ''alice'', d_created_at = ''2025-01-20T10:00:00'', d_updated_at = ''2025-01-20T10:00:00'', d_due_date = None\<rparr>] \<noteq> Inl DecodingError"
    and r3: "get_user_todos ''alice'' [\<lparr>d_id = ''2'', d_title = ''t'', d_details = '''', d_priority = ''LOW'', d_status = ''COMPLETED'', d_owner = ''alice'', d_created_at = ''2025-01-20T10:00:00'', d_updated_at = ''2025-01-20T10:00:00'', d_due_date = None\<rparr>] = get_user_todos ''alice'' [\<lparr>d_id = ''1'', d_title = ''t'', d_details = '''', d_priority = ''INVALID'', d_status = ''PENDING'', d_owner = ''bob'', d_created_at = ''2025-01-20T10:00:00'', d_updated_at = ''2025-01-20T10:00:00'', d_due_date = None\<rparr>, \<lparr>d_id = ''2'', d_title = ''t'', d_details = '''', d_priority = ''LOW'', d_status = ''COMPLETED'', d_owner = ''alice'', d_created_at = ''2025-01-20T10:00:00'', d_updated_at = ''2025-01-20T10:00:00'', d_due_date = None\<rparr>]"
    by simp_all
  from r1 r2 r3 show ?thesis by (intro conjI)
qed

text \<open>
  C5, as stated, fails: a document whose only record belongs to bob and has the priority
  \<open>INVALID\<close> cannot be decoded, and \<open>get_user_todos\<close> for alice still succeeds with
  the empty list, because the record of bob is filtered out before any decoding.
\<close>

theorem C5_counterexample:
  "from_dict \<lparr>d_id = ''1'', d_title = ''t'', d_details = '''', d_priority = ''INVALID'', d_status = ''PENDING'', d_owner = ''bob'', d_created_at = ''2025-01-20T10:00:00'', d_updated_at = ''2025-01-20T10:00:00'', d_due_date = None\<rparr> = Inl DecodingError \<and>
   d_owner \<lparr>d_id = ''1'', d_title = ''t'', d_details = '''', d_priority = ''INVALID'', d_status = ''PENDING'', d_owner = ''bob'', d_created_at = ''2025-01-20T10:00:00'', d_updated_at = ''2025-01-20T10:00:00'', d_due_date = None\<rparr> \<noteq> ''alice'' \<and>
   get_user_todos ''alice'' [\<lparr>d_id = ''1'', d_title = ''t'', d_details = '''', d_priority = ''INVALID'', d_status = ''PENDING'', d_owner = ''bob'', d_created_at = ''2025-01-20T10:00:00'', d_updated_at = ''2025-01-20T10:00:00'', d_due_date = None\<rparr>] = Inr [] \<and>
   get_user_todos ''alice'' [\<lparr>d_id = ''1'', d_title = ''t'', d_details = '''', d_priority = ''INVALID'', d_status = ''PENDING'', d_owner = ''bob'', d_created_at = ''2025-01-20T10:00:00'', d_updated_at = ''2025-01-20T10:00:00'', d_due_date = None\<rparr>] \<noteq> Inl DecodingError"
  by (simp add: get_user_todos_def from_dict_def Priority_of_def)

text \<open>
  C6. \<open>get_todo_by_id i u\<close> answers not found (\<open>Inr None\<close>) when no record has the id
  \<open>i\<close>, and gives the very same answer when the record located by \<open>i\<close> belongs to an
  owner other than \<open>u\<close>. Whenever it does return an item, that item has the id \<open>i\<close> and
  the owner \<open>u\<close>: no caller receives an item of another user.
\<close>

theorem C6_get_todo_by_id_isolation:
  "(find_by_id i doc = None \<longrightarrow> get_todo_by_id i u doc = Inr None) \<and>
   (\<forall>d. find_by_id i doc = Some d \<and> d_owner d \<noteq> u \<longrightarrow> get_todo_by_id i u doc = Inr None) \<and>
   (\<forall>x. get_todo_by_id i u doc = Inr (Some x) \<longrightarrow> owner x = u \<and> todo_id x = i) \<and>
   (find_by_id i doc = None \<longleftrightarrow> (\<forall>d \<in> set doc. d_id d \<noteq> i))"
proof (intro conjI allI impI)
  assume "find_by_id i doc = None"
  then show "get_todo_by_id i u doc = Inr None" by (simp add: get_todo_by_id_def)
next
  fix d assume "find_by_id i doc = Some d \<and> d_owner d \<noteq> u"
  then show "get_todo_by_id i u doc = Inr None" by (simp add: get_todo_by_id_def)
next
  fix x assume x: "get_todo_by_id i u doc = Inr (Some x)"
  then obtain d where d: "find_by_id i doc = Some d" "d_owner d = u" "from_dict d = Inr x"
    by (auto simp: get_todo_by_id_def split: option.splits if_splits sum.splits)
  from find_by_id_SomeD[OF d(1)] have "d_id d = i" by blast
  moreover from d(3) have "owner x = d_owner d" "todo_id x = d_id d"
    by (auto simp: from_dict_def split: option.splits)
  ultimately show "owner x = u" "todo_id x = i" using d(2) by simp_all
next
  show "find_by_id i doc = None \<longleftrightarrow> (\<forall>d \<in> set doc. d_id d \<noteq> i)"
    by (rule find_by_id_None_iff)
qed

theorem C6_get_todo_by_id_isolation_witness:
  "find_by_id ''zz'' [to_dict \<lparr>todo_id = ''a'', title = ''Buy milk'', details = '''', priority = MID, status = PENDING, owner = ''alice'', created_at = ''2025-01-20T10:00:00'', updated_at = ''2025-01-20T10:00:00'', due_date = None\<rparr>] = None \<and>
   get_todo_by_id ''zz'' ''alice'' [to_dict \<lparr>todo_id = ''a'', title = ''Buy milk'', details = '''', priority = MID, status = PENDING, owner = ''alice'', created_at = ''2025-01-20T10:00:00'', updated_at = ''2025-01-20T10:00:00'', due_date = None\<rparr>] = Inr None \<and>
   find_by_id ''a'' [to_dict \<lparr>todo_id = ''a'', title = ''Buy milk'', details = '''', priority = MID, status = PENDING, owner = ''alice'', created_at = ''2025-01-20T10:00:00'', updated_at = ''2025-01-20T10:00:00'', due_date = None\<rparr>] = Some (to_dict \<lparr>todo_id = ''a'', title = ''Buy milk'', details = '''', priority = MID, status = PENDING, owner = ''alice'', created_at = ''2025-01-20T10:00:00'', updated_at = ''2025-01-20T10:00:00'', due_date = None\<rparr>) \<and>
   d_owner (to_dict \<lparr>todo_id = ''a'', title = ''Buy milk'', details = '''', priority = MID, status = PENDING, owner = ''alice'', created_at = ''2025-01-20T10:00:00'', updated_at = ''2025-01-20T10:00:00'', due_date = None\<rparr>) \<noteq> ''bob'' \<and>
   get_todo_by_id ''a'' ''bob'' [to_dict \<lparr>todo_id = ''a'', title = ''Buy milk'', details = '''', priority = MID, status = PENDING, owner = ''alice'', created_at = ''2025-01-20T10:00:00'', updated_at = ''2025-01-20T10:00:00'', due_date = None\<rparr>] = Inr None"
proof -
  let ?doc = "[to_dict \<lparr>todo_id = ''a'', title = ''Buy milk'', details = '''', priority = MID, status = PENDING, owner = ''alice'', created_at = ''2025-01-20T10:00:00'', updated_at = ''2025-01-20T10:00:00'', due_date = None\<rparr>]"
  have h1: "find_by_id ''zz'' ?doc = None"
    by (simp add: to_dict_def)
  have h2: "find_by_id ''a'' ?doc = Some (to_dict \<lparr>todo_id = ''a'', title = ''Buy milk'', details = '''', priority = MID, status = PENDING, owner = ''alice'', created_at = ''2025-01-20T10:00:00'', updated_at = ''2025-01-20T10:00:00'', due_date = None\<rparr>) \<and> d_owner (to_dict \<lparr>todo_id = ''a'', title = ''Buy milk'', details = '''', priority = MID, status = PENDING, owner = ''alice'', created_at = ''2025-01-20T10:00:00'', updated_at = ''2025-01-20T10:00:00'', due_date = None\<rparr>) \<noteq> ''bob''"
    by (simp add: to_dict_def)
  from h1 C6_get_todo_by_id_isolation[of "''zz''" ?doc "''alice''"]
  have r1: "get_todo_by_id ''zz'' ''alice'' ?doc = Inr None"
    by blast
  from h2 C6_get_todo_by_id_isolation[of "''a''" ?doc "''bob''"]
  have r2: "get_todo_by_id ''a'' ''bob'' ?doc = Inr None"
    by blast
  from h1 h2 r1 r2 show ?thesis by simp
qed




text \<open>
  C8. \<open>add_todo\<close> returns \<open>True\<close> for every item and every document and appends the
  encoded item, with no test on the id: a second call with an item of the same id as the
  first (any item \<open>y\<close> given the id of \<open>x\<close>, or \<open>x\<close> itself again) also returns
  \<open>True\<close>, and the document then ends with both records, which carry the same id.
\<close>

theorem C8_add_todo_no_uniqueness_check:
  "add_todo x doc = (True, doc @ [to_dict x]) \<and>
   add_todo (y\<lparr>todo_id := todo_id x\<rparr>) (snd (add_todo x doc)) =
     (True, doc @ [to_dict x, to_dict (y\<lparr>todo_id := todo_id x\<rparr>)]) \<and>
   d_id (to_dict (y\<lparr>todo_id := todo_id x\<rparr>)) = d_id (to_dict x) \<and>
   add_todo x (snd (add_todo x doc)) = (True, doc @ [to_dict x, to_dict x])"
proof -
  have first: "add_todo x doc = (True, doc @ [to_dict x])"
    by (rule add_todo_eq)
  then have after: "snd (add_todo x doc) = doc @ [to_dict x]"
    by simp
  have same_id: "d_id (to_dict (y\<lparr>todo_id := todo_id x\<rparr>)) = d_id (to_dict x)"
    by (simp add: to_dict_def)
  have second: "add_todo z (snd (add_todo x doc)) = (True, doc @ [to_dict x, to_dict z])"
    for z by (simp add: after add_todo_eq)
  from first second same_id show ?thesis
    by (intro conjI)
qed

text \<open>
  C9. With three lines of input to read, \<open>handle_add_todo\<close> returns, and the document
  afterwards is the document before followed by the encoding of one new item whose status
  is \<open>PENDING\<close> and whose due date is absent; the stored record has the status tag
  \<open>PENDING\<close> and no due date key. The handler reads exactly three lines and writes exactly
  the three prompts for title, details and priority, followed only by its two messages:
  there is no prompt for a due date or a status. With fewer than three lines it ends with
  the end-of-input error and returns no document, so nothing is inserted.
\<close>

theorem C9_handle_add_todo_pending_without_due_date:
  "(length (stdin c) < 3 \<longrightarrow> handle_add_todo fresh_id now app c = Inl EOFError) \<and>
   (3 \<le> length (stdin c) \<longrightarrow>
      (\<exists>todo app' c'.
         handle_add_todo fresh_id now app c = Inr (app', c') \<and>
         todo_manager app' = todo_manager app @ [to_dict todo] \<and>
         status todo = PENDING \<and> due_date todo = None \<and>
         d_status (to_dict todo) = ''PENDING'' \<and> d_due_date (to_dict todo) = None \<and>
         owner todo = current_user app \<and>
         stdin c' = drop 3 (stdin c) \<and>
         (\<exists>msgs. stdout c' =
                   stdout c @ [''Enter todo title: '', ''Enter todo details: '',
                               ''Enter priority (HIGH/MID/LOW): ''] @ msgs \<and>
                 set msgs \<subseteq> {''Invalid priority. Defaulting to MID.'',
                             ''Todo added successfully!''})))"
proof (intro conjI impI)
  assume "length (stdin c) < 3"
  then show "handle_add_todo fresh_id now app c = Inl EOFError"
    by (rule handle_add_todo_eof)
next
  assume "3 \<le> length (stdin c)"
  then obtain l1 l2 l3 rest where ls: "stdin c = l1 # l2 # l3 # rest"
    using three_lines by blast
  then have c: "c = \<lparr>stdin = l1 # l2 # l3 # rest, stdout = stdout c\<rparr>"
    by (cases c) simp
  let ?todo = "\<lparr> todo_id = fresh_id, title = strip l1, details = strip l2,
                 priority = (case Priority_of (upper (strip l3)) of
                               None \<Rightarrow> MID | Some p \<Rightarrow> p),
                 status = PENDING, owner = current_user app,
                 created_at = now, updated_at = now, due_date = None \<rparr>"
  let ?msgs = "(case Priority_of (upper (strip l3)) of
                  None \<Rightarrow> [''Invalid priority. Defaulting to MID.'']
                | Some p \<Rightarrow> []) @ [''Todo added successfully!'']"
  let ?app = "app\<lparr>todo_manager := todo_manager app @ [to_dict ?todo]\<rparr>"
  let ?c = "\<lparr>stdin = rest,
             stdout = stdout c @ [''Enter todo title: '', ''Enter todo details: '',
                                  ''Enter priority (HIGH/MID/LOW): ''] @ ?msgs\<rparr>"
  have run: "handle_add_todo fresh_id now app c = Inr (?app, ?c)"
    by (subst c) (rule handle_add_todo_eq)
  have msgs: "set ?msgs \<subseteq> {''Invalid priority. Defaulting to MID.'',
                            ''Todo added successfully!''}"
    by (cases "Priority_of (upper (strip l3))") simp_all
  have enc: "d_status (to_dict ?todo) = ''PENDING''" "d_due_date (to_dict ?todo) = None"
    by (simp_all add: to_dict_def)
  have "stdout ?c = stdout c @ [''Enter todo title: '', ''Enter todo details: '',
                               ''Enter priority (HIGH/MID/LOW): ''] @ ?msgs"
    by simp
  with msgs have out: "\<exists>msgs. stdout ?c =
                   stdout c @ [''Enter todo title: '', ''Enter todo details: '',
                               ''Enter priority (HIGH/MID/LOW): ''] @ msgs \<and>
                 set msgs \<subseteq> {''Invalid priority. Defaulting to MID.'',
                             ''Todo added successfully!''}"
    by blast
  have rest: "stdin ?c = drop 3 (stdin c)" by (simp add: ls)
  show "\<exists>todo app' c'.
         handle_add_todo fresh_id now app c = Inr (app', c') \<and>
         todo_manager app' = todo_manager app @ [to_dict todo] \<and>
         status todo = PENDING \<and> due_date todo = None \<and>
         d_status (to_dict todo) = ''PENDING'' \<and> d_due_date (to_dict todo) = None \<and>
         owner todo = current_user app \<and>
         stdin c' = drop 3 (stdin c) \<and>
         (\<exists>msgs. stdout c' =
                   stdout c @ [''Enter todo title: '', ''Enter todo details: '',
                               ''Enter priority (HIGH/MID/LOW): ''] @ msgs \<and>
                 set msgs \<subseteq> {''Invalid priority. Defaulting to MID.'',
                             ''Todo added successfully!''})"
    apply (rule exI[of _ ?todo], rule exI[of _ ?app], rule exI[of _ ?c])
    apply (intro conjI)
            apply (rule run)
           apply simp
          apply simp
         apply simp
        apply (rule enc(1))
       apply (rule enc(2))
      apply simp
     apply (rule rest)
    apply (rule out)
    done
qed

theorem C9_handle_add_todo_pending_without_due_date_witness:
  "3 \<le> length (stdin \<lparr>stdin = [''Buy milk'', ''2 litres'', ''high'', ''2025-12-31''], stdout = []\<rparr>) \<and>
   (\<exists>todo app' c'.
      handle_add_todo ''id-1'' ''2025-01-20T10:00:00'' \<lparr>todo_manager = [], current_user = ''alice''\<rparr>
        \<lparr>stdin = [''Buy milk'', ''2 litres'', ''high'', ''2025-12-31''], stdout = []\<rparr> = Inr (app', c') \<and>
      todo_manager app' = [to_dict todo] \<and>
      status todo = PENDING \<and> due_date todo = None \<and>
      stdin c' = [''2025-12-31''])"
proof -
  let ?c = "\<lparr>stdin = [''Buy milk'', ''2 litres'', ''high'', ''2025-12-31''], stdout = []\<rparr>"
  have h: "3 \<le> length (stdin ?c)" by simp
  from h C9_handle_add_todo_pending_without_due_date
           [of ?c "''id-1''" "''2025-01-20T10:00:00''" "\<lparr>todo_manager = [], current_user = ''alice''\<rparr>"]
  obtain todo app' c' where
    "handle_add_todo ''id-1'' ''2025-01-20T10:00:00'' \<lparr>todo_manager = [], current_user = ''alice''\<rparr> ?c = Inr (app', c')"
    "todo_manager app' = todo_manager \<lparr>todo_manager = [], current_user = ''alice''\<rparr> @ [to_dict todo]"
    "status todo = PENDING" "due_date todo = None" "stdin c' = drop 3 (stdin ?c)"
    by blast
  then have "handle_add_todo ''id-1'' ''2025-01-20T10:00:00'' \<lparr>todo_manager = [], current_user = ''alice''\<rparr> ?c = Inr (app', c') \<and>
      todo_manager app' = [to_dict todo] \<and>
      status todo = PENDING \<and> due_date todo = None \<and>
      stdin c' = [''2025-12-31'']"
    by simp
  then have "\<exists>todo app' c'.
      handle_add_todo ''id-1'' ''2025-01-20T10:00:00'' \<lparr>todo_manager = [], current_user = ''alice''\<rparr> ?c = Inr (app', c') \<and>
      todo_manager app' = [to_dict todo] \<and>
      status todo = PENDING \<and> due_date todo = None \<and>
      stdin c' = [''2025-12-31'']"
    by blast
  with h show ?thesis by (rule conjI)
qed

text \<open>
  C10. When the first line read, stripped of whitespace, is the empty string,
  \<open>handle_add_todo\<close> does not stop: it returns, the document has grown by exactly one
  record, that record is the encoding of an item whose title is the empty string, and the
  last message written is the one that reports success.
\<close>

theorem C10_handle_add_todo_accepts_empty_title:
  assumes "stdin c = l1 # l2 # l3 # rest" and "strip l1 = []"
  shows "\<exists>todo app' c'.
           handle_add_todo fresh_id now app c = Inr (app', c') \<and>
           todo_manager app' = todo_manager app @ [to_dict todo] \<and>
           title todo = [] \<and>
           d_title (last (todo_manager app')) = [] \<and>
           length (todo_manager app') = Suc (length (todo_manager app)) \<and>
           last (stdout c') = ''Todo added successfully!''"
proof -
  from assms(1) have c: "c = \<lparr>stdin = l1 # l2 # l3 # rest, stdout = stdout c\<rparr>"
    by (cases c) simp
  let ?todo = "\<lparr> todo_id = fresh_id, title = strip l1, details = strip l2,
                 priority = (case Priority_of (upper (strip l3)) of
                               None \<Rightarrow> MID | Some p \<Rightarrow> p),
                 status = PENDING, owner = current_user app,
                 created_at = now, updated_at = now, due_date = None \<rparr>"
  let ?app = "app\<lparr>todo_manager := todo_manager app @ [to_dict ?todo]\<rparr>"
  let ?c = "\<lparr>stdin = rest,
             stdout = stdout c @ [''Enter todo title: '', ''Enter todo details: '',
                                  ''Enter priority (HIGH/MID/LOW): ''] @
                      (case Priority_of (upper (strip l3)) of
                         None \<Rightarrow> [''Invalid priority. Defaulting to MID.'']
                       | Some p \<Rightarrow> []) @
                      [''Todo added successfully!'']\<rparr>"
  have run: "handle_add_todo fresh_id now app c = Inr (?app, ?c)"
    by (subst c) (rule handle_add_todo_eq)
  have t: "title ?todo = []" "d_title (to_dict ?todo) = []"
    using assms(2) by (simp_all add: to_dict_def)
  have l: "last (stdout ?c) = ''Todo added successfully!''"
    by (simp split: option.splits)
  show ?thesis
    apply (rule exI[of _ ?todo], rule exI[of _ ?app], rule exI[of _ ?c])
    apply (intro conjI)
         apply (rule run)
        apply simp
       apply (rule t(1))
      apply (simp add: t(2))
     apply simp
    apply (rule l)
    done
qed

theorem C10_handle_add_todo_accepts_empty_title_witness:
  "stdin \<lparr>stdin = [''   '', ''details'', ''low''], stdout = []\<rparr> = [''   '', ''details'', ''low''] \<and>
   strip ''   '' = [] \<and>
   (\<exists>todo app' c'.
      handle_add_todo ''id-1'' ''2025-01-20T10:00:00'' \<lparr>todo_manager = [], current_user = ''alice''\<rparr>
        \<lparr>stdin = [''   '', ''details'', ''low''], stdout = []\<rparr> = Inr (app', c') \<and>
      todo_manager app' = [to_dict todo] \<and>
      title todo = [] \<and>
      length (todo_manager app') = 1)"
proof -
  let ?c = "\<lparr>stdin = [''   '', ''details'', ''low''], stdout = []\<rparr>"
  have h1: "stdin ?c = [''   '', ''details'', ''low'']" by simp
  have h2: "strip ''   '' = []" by (simp add: strip_def isspace_def)
  from C10_handle_add_todo_accepts_empty_title
         [OF h1 h2, of "''id-1''" "''2025-01-20T10:00:00''" "\<lparr>todo_manager = [], current_user = ''alice''\<rparr>"]
  obtain todo app' c' where
    "handle_add_todo ''id-1'' ''2025-01-20T10:00:00'' \<lparr>todo_manager = [], current_user = ''alice''\<rparr> ?c = Inr (app', c')"
    "todo_manager app' = todo_manager \<lparr>todo_manager = [], current_user = ''alice''\<rparr> @ [to_dict todo]"
    "title todo = []" "length (todo_manager app') = Suc (length (todo_manager \<lparr>todo_manager = [], current_user = ''alice''\<rparr>))"
    by blast
  then have "handle_add_todo ''id-1'' ''2025-01-20T10:00:00'' \<lparr>todo_manager = [], current_user = ''alice''\<rparr> ?c = Inr (app', c') \<and>
      todo_manager app' = [to_dict todo] \<and>
      title todo = [] \<and>
      length (todo_manager app') = 1"
    by simp
  then have "\<exists>todo app' c'.
      handle_add_todo ''id-1'' ''2025-01-20T10:00:00'' \<lparr>todo_manager = [], current_user = ''alice''\<rparr> ?c = Inr (app', c') \<and>
      todo_manager app' = [to_dict todo] \<and>
      title todo = [] \<and>
      length (todo_manager app') = 1"
    by blast
  with h1 h2 show ?thesis by (intro conjI)
qed

end
